theory Spec2Isabelle
  imports Main
begin

section \<open>The chat relay of backend\_app.py\<close>

text \<open>
  The module exposes one Flask view, \<open>chat\<close>, which validates the inbound request and
  hands the message to \<open>get_gemini_response\<close>; that function posts the message to the
  vendor API and unwraps one nested field of the reply. The embedding below follows the
  source line by line. What the source takes from its libraries (the inbound request as
  Flask presents it, the outcome of \<open>requests.post\<close>) is a parameter of the model.
\<close>

subsection \<open>Python values\<close>

text \<open>
  The values \<open>request.get_json()\<close> and \<open>response.json()\<close> can return: \<open>None\<close>, a
  \<open>bool\<close>, an \<open>int\<close>, a \<open>float\<close>, a \<open>str\<close>, a \<open>list\<close> or a \<open>dict\<close> with string keys.
  A float is kept as mantissa and binary exponent (\<open>Finite m e\<close> stands for \<open>m * 2 ^ e\<close>),
  only its being zero matters here. A \<open>dict\<close> is the list of its items, keys distinct.
  A \<open>str\<close> is the list of its code points, so that it can hold a lone surrogate (the
  JSON escape of U+D800 parses to one). The literals of the source and the texts of
  exceptions are ASCII and written as \<open>string\<close>; \<open>lit\<close> turns one into a \<open>str\<close> value.
\<close>

type_synonym pystr = "nat list"

definition lit :: "string \<Rightarrow> pystr" where
  "lit s = map of_char s"

datatype pyfloat = Finite int int | PosInf | NegInf | NaN

datatype jval =
    JNull
  | JBool bool
  | JInt int
  | JFloat pyfloat
  | JStr pystr
  | JList "jval list"
  | JDict "(pystr \<times> jval) list"

text \<open>Truth value testing, as \<open>not x\<close> and \<open>x and ...\<close> apply it.\<close>

fun truthy :: "jval \<Rightarrow> bool" where
  "truthy JNull = False"
| "truthy (JBool b) = b"
| "truthy (JInt i) = (i \<noteq> 0)"
| "truthy (JFloat (Finite m e)) = (m \<noteq> 0)"
| "truthy (JFloat f) = True"
| "truthy (JStr s) = (s \<noteq> [])"
| "truthy (JList xs) = (xs \<noteq> [])"
| "truthy (JDict d) = (d \<noteq> [])"

fun type_name :: "jval \<Rightarrow> string" where
  "type_name JNull = ''NoneType''"
| "type_name (JBool b) = ''bool''"
| "type_name (JInt i) = ''int''"
| "type_name (JFloat f) = ''float''"
| "type_name (JStr s) = ''str''"
| "type_name (JList xs) = ''list''"
| "type_name (JDict d) = ''dict''"

subsection \<open>Exceptions\<close>

text \<open>
  An exception is its class and the text \<open>str(e)\<close>. The classes are those the module can
  meet; all of them derive from \<open>Exception\<close>. \<open>RequestsJSONDecodeError\<close> is the class
  \<open>requests.exceptions.JSONDecodeError\<close> of recent versions of the client library, which
  derives from both \<open>RequestException\<close> and \<open>json.JSONDecodeError\<close>; \<open>JSONDecodeError\<close> is
  \<open>json.JSONDecodeError\<close> itself. Signals that are no \<open>Exception\<close> (\<open>KeyboardInterrupt\<close>,
  \<open>SystemExit\<close>) are outside the model. The text of an exception is a \<open>string\<close>: the
  interpreter and the client library build it from ASCII literals, type names, status lines
  and URLs, so it holds no surrogate and the handlers can print it.
\<close>

datatype exc_class =
    RequestException
  | ConnectionError
  | Timeout
  | HTTPError
  | RequestsJSONDecodeError
  | JSONDecodeError
  | TypeError
  | KeyError
  | IndexError
  | AttributeError
  | UnicodeEncodeError
  | BadRequest
  | OtherException

datatype py_exc = Exc (cls: exc_class) (msg: string)

text \<open>\<open>isinstance(e, requests.exceptions.RequestException)\<close>\<close>

fun is_RequestException :: "exc_class \<Rightarrow> bool" where
  "is_RequestException RequestException = True"
| "is_RequestException ConnectionError = True"
| "is_RequestException Timeout = True"
| "is_RequestException HTTPError = True"
| "is_RequestException RequestsJSONDecodeError = True"
| "is_RequestException c = False"

text \<open>\<open>isinstance(e, json.JSONDecodeError)\<close>\<close>

fun is_JSONDecodeError :: "exc_class \<Rightarrow> bool" where
  "is_JSONDecodeError RequestsJSONDecodeError = True"
| "is_JSONDecodeError JSONDecodeError = True"
| "is_JSONDecodeError c = False"

definition bind :: "py_exc + 'a \<Rightarrow> ('a \<Rightarrow> py_exc + 'b) \<Rightarrow> py_exc + 'b" where
  "bind m f = (case m of Inl e \<Rightarrow> Inl e | Inr x \<Rightarrow> f x)"

text \<open>
  \<open>a and b\<close> in a condition: \<open>b\<close> is evaluated only when \<open>a\<close> is true, so what \<open>b\<close> would
  raise is lost when \<open>a\<close> is false.
\<close>

definition py_and :: "py_exc + bool \<Rightarrow> py_exc + bool \<Rightarrow> py_exc + bool" where
  "py_and a b = (case a of Inl e \<Rightarrow> Inl e | Inr x \<Rightarrow> (if x then b else Inr False))"

subsection \<open>The operators the source applies to the vendor's reply\<close>

definition quote :: string where
  "quote = [CHR 0x27]"

text \<open>\<open>k in s\<close> for two strings: \<open>k\<close> occurs in \<open>s\<close> as a substring.\<close>

fun substring :: "pystr \<Rightarrow> pystr \<Rightarrow> bool" where
  "substring k [] = (k = [])"
| "substring k (c # s) = (take (length k) (c # s) = k \<or> substring k s)"

text \<open>
  \<open>k in v\<close> for a string literal \<open>k\<close>: key membership in a \<open>dict\<close>, element membership in a
  \<open>list\<close> (by \<open>==\<close>, and a \<open>str\<close> equals only a \<open>str\<close>), substring test in a \<open>str\<close>,
  a \<open>TypeError\<close> on anything else.
\<close>

fun py_in :: "string \<Rightarrow> jval \<Rightarrow> py_exc + bool" where
  "py_in k (JDict d) = Inr (map_of d (lit k) \<noteq> None)"
| "py_in k (JList xs) = Inr (JStr (lit k) \<in> set xs)"
| "py_in k (JStr s) = Inr (substring (lit k) s)"
| "py_in k v = Inl (Exc TypeError (''argument of type '' @ quote @ type_name v @ quote @ '' is not iterable''))"

text \<open>\<open>len(v)\<close>\<close>

fun py_len :: "jval \<Rightarrow> py_exc + nat" where
  "py_len (JDict d) = Inr (length d)"
| "py_len (JList xs) = Inr (length xs)"
| "py_len (JStr s) = Inr (length s)"
| "py_len v = Inl (Exc TypeError (''object of type '' @ quote @ type_name v @ quote @ '' has no len()''))"

text \<open>\<open>v[k]\<close> for a string literal \<open>k\<close>\<close>

fun item :: "jval \<Rightarrow> string \<Rightarrow> py_exc + jval" where
  "item (JDict d) k =
     (case map_of d (lit k) of None \<Rightarrow> Inl (Exc KeyError (quote @ k @ quote)) | Some x \<Rightarrow> Inr x)"
| "item (JList xs) k = Inl (Exc TypeError ''list indices must be integers or slices, not str'')"
| "item (JStr s) k = Inl (Exc TypeError (''string indices must be integers, not '' @ quote @ ''str'' @ quote))"
| "item v k = Inl (Exc TypeError (quote @ type_name v @ quote @ '' object is not subscriptable''))"

text \<open>
  \<open>v[0]\<close>: the first element of a \<open>list\<close>, the first character of a \<open>str\<close>; a \<open>dict\<close>
  from JSON has string keys only, so the key \<open>0\<close> is missing.
\<close>

fun item0 :: "jval \<Rightarrow> py_exc + jval" where
  "item0 (JList []) = Inl (Exc IndexError ''list index out of range'')"
| "item0 (JList (x # xs)) = Inr x"
| "item0 (JStr []) = Inl (Exc IndexError ''string index out of range'')"
| "item0 (JStr (c # s)) = Inr (JStr [c])"
| "item0 (JDict d) = Inl (Exc KeyError ''0'')"
| "item0 v = Inl (Exc TypeError (quote @ type_name v @ quote @ '' object is not subscriptable''))"

text \<open>\<open>data.get(k)\<close>: only a \<open>dict\<close> has the method; a missing key gives \<open>None\<close>.\<close>

fun dict_get :: "jval \<Rightarrow> string \<Rightarrow> py_exc + jval" where
  "dict_get (JDict d) k = Inr (case map_of d (lit k) of None \<Rightarrow> JNull | Some x \<Rightarrow> x)"
| "dict_get v k =
     Inl (Exc AttributeError (quote @ type_name v @ quote @ '' object has no attribute '' @ quote @ ''get'' @ quote))"

subsection \<open>The outside: inbound request, outbound call, effects\<close>

text \<open>
  The inbound request as Flask presents it to the view: \<open>request.is_json\<close> (decided by
  the Content-Type header) and what \<open>request.get_json()\<close> does (it returns the parsed
  body, or raises when the body does not parse).
\<close>

record request =
  is_json :: bool
  get_json :: "py_exc + jval"

text \<open>What the view returns to Flask: a JSON body and a status code.\<close>

record http_response =
  status :: nat
  body :: jval

text \<open>The arguments of \<open>requests.post\<close>.\<close>

record http_post =
  url :: string
  headers :: "(string \<times> string) list"
  params :: "(string \<times> string option) list"
  json_payload :: jval

text \<open>
  The vendor's reply as the client library presents it: the status code, the text of the
  \<open>HTTPError\<close> that \<open>raise_for_status\<close> builds from it, and what \<open>response.json()\<close> does.
\<close>

record response =
  status_code :: nat
  http_error_text :: string
  json :: "py_exc + jval"

datatype post_outcome = PostRaises py_exc | PostReturns response

type_synonym vendor = "http_post \<Rightarrow> post_outcome"

text \<open>
  \<open>response.raise_for_status()\<close> raises for the status codes 400 to 599.
\<close>

definition raise_for_status :: "response \<Rightarrow> py_exc + unit" where
  "raise_for_status r =
     (if 400 \<le> status_code r \<and> status_code r < 600
      then Inl (Exc HTTPError (http_error_text r)) else Inr ())"

text \<open>
  The effects of the module, in the order they happen: a call of \<open>requests.post\<close>, a
  \<open>print\<close> of a line made of literals and the text of an exception, a \<open>print\<close> of a
  fixed prefix followed by a formatted value.
\<close>

datatype effect =
    Post http_post
  | Print string
  | PrintValue string jval

text \<open>
  The state a request runs in: the three module-level bindings and the trace of effects
  so far.
\<close>

record 'app world =
  GEMINI_API_KEY :: "string option"
  GEMINI_API_URL :: string
  app :: 'app
  trace :: "effect list"

text \<open>
  Loading the module binds the key to \<open>os.getenv("GEMINI_API_KEY")\<close> and the URL to its
  literal.
\<close>

definition module_init :: "string option \<Rightarrow> 'app \<Rightarrow> 'app world" where
  "module_init getenv_key flask_app =
     \<lparr>GEMINI_API_KEY = getenv_key,
      GEMINI_API_URL = ''https://generativelanguage.googleapis.com/v1beta/models/gemini-2.0-flash:generateContent'',
      app = flask_app,
      trace = []\<rparr>"

definition emit :: "effect \<Rightarrow> 'app world \<Rightarrow> 'app world" where
  "emit e w = w\<lparr>trace := trace w @ [e]\<rparr>"

fun posts :: "effect list \<Rightarrow> http_post list" where
  "posts [] = []"
| "posts (Post p # es) = p # posts es"
| "posts (e # es) = posts es"

text \<open>\<open>not GEMINI_API_KEY\<close> is false for a non-empty string only.\<close>

fun key_truthy :: "string option \<Rightarrow> bool" where
  "key_truthy None = False"
| "key_truthy (Some k) = (k \<noteq> [])"

subsection \<open>get\_gemini\_response\<close>

definition payload :: "jval \<Rightarrow> jval" where
  "payload prompt =
     JDict [(lit ''contents'',
       JList [JDict [(lit ''role'', JStr (lit ''user'')),
                     (lit ''parts'', JList [JDict [(lit ''text'', prompt)]])]])]"

definition outbound :: "'app world \<Rightarrow> jval \<Rightarrow> http_post" where
  "outbound w prompt =
     \<lparr>url = GEMINI_API_URL w,
      headers = [(''Content-Type'', ''application/json'')],
      params = [(''key'', GEMINI_API_KEY w)],
      json_payload = payload prompt\<rparr>"

text \<open>The subexpressions of the extraction, each evaluated as the source writes it.\<close>

definition candidates :: "jval \<Rightarrow> py_exc + jval" where
  "candidates result = item result ''candidates''"

definition candidate0 :: "jval \<Rightarrow> py_exc + jval" where
  "candidate0 result = bind (candidates result) item0"

definition content :: "jval \<Rightarrow> py_exc + jval" where
  "content result = bind (candidate0 result) (\<lambda>c. item c ''content'')"

definition parts :: "jval \<Rightarrow> py_exc + jval" where
  "parts result = bind (content result) (\<lambda>c. item c ''parts'')"

definition part0 :: "jval \<Rightarrow> py_exc + jval" where
  "part0 result = bind (parts result) item0"

definition part0_text :: "jval \<Rightarrow> py_exc + jval" where
  "part0_text result = bind (part0 result) (\<lambda>p. item p ''text'')"

text \<open>The condition of the \<open>if\<close> that guards the extraction.\<close>

definition structure_ok :: "jval \<Rightarrow> py_exc + bool" where
  "structure_ok result =
     py_and (Inr (truthy result))
    (py_and (py_in ''candidates'' result)
    (py_and (bind (bind (candidates result) py_len) (\<lambda>n. Inr (n > 0)))
    (py_and (bind (candidate0 result) (py_in ''content''))
    (py_and (bind (content result) (py_in ''parts''))
            (bind (bind (parts result) py_len) (\<lambda>n. Inr (n > 0)))))))"

definition fallback :: string where
  "fallback = ''Sorry, I couldn't get a valid response from the AI. Please try again.''"

text \<open>The body of the \<open>try\<close>: the call, the status check, the parse, the extraction.\<close>

definition try_block :: "vendor \<Rightarrow> jval \<Rightarrow> 'app world \<Rightarrow> (py_exc + jval) \<times> 'app world" where
  "try_block vendor prompt w =
     (let w1 = emit (Post (outbound w prompt)) w in
      case vendor (outbound w prompt) of
        PostRaises e \<Rightarrow> (Inl e, w1)
      | PostReturns response \<Rightarrow>
          (case raise_for_status response of
             Inl e \<Rightarrow> (Inl e, w1)
           | Inr u \<Rightarrow>
               (case json response of
                  Inl e \<Rightarrow> (Inl e, w1)
                | Inr result \<Rightarrow>
                    (case structure_ok result of
                       Inl e \<Rightarrow> (Inl e, w1)
                     | Inr ok \<Rightarrow>
                         if ok then (part0_text result, w1)
                         else (Inr (JStr (lit fallback)),
                               emit (PrintValue ''DEBUG: Unexpected API response structure: '' result) w1)))))"

text \<open>The three \<open>except\<close> clauses, tried in the order of the source.\<close>

definition handle :: "py_exc \<Rightarrow> 'app world \<Rightarrow> jval \<times> 'app world" where
  "handle e w =
     (if is_RequestException (cls e) then
        (JStr (lit (''An error occurred while connecting to the AI service: '' @ msg e)),
         emit (Print (''Error connecting to Gemini API: '' @ msg e)) w)
      else if is_JSONDecodeError (cls e) then
        (JStr (lit ''An error occurred while processing the AI's response.''),
         emit (Print ''Error parsing Gemini API response.'') w)
      else
        (JStr (lit (''An unexpected error occurred: '' @ msg e)),
         emit (Print (''An unexpected error occurred in get_gemini_response: '' @ msg e)) w))"

definition get_gemini_response :: "vendor \<Rightarrow> jval \<Rightarrow> 'app world \<Rightarrow> jval \<times> 'app world" where
  "get_gemini_response vendor prompt w =
     (if \<not> key_truthy (GEMINI_API_KEY w) then
        (JStr (lit ''Error: Backend configuration issue. Gemini API Key is missing.''),
         emit (Print ''Error: Gemini API Key environment variable is not set on the server.'') w)
      else
        case try_block vendor prompt w of
          (Inr v, w1) \<Rightarrow> (v, w1)
        | (Inl e, w1) \<Rightarrow> handle e w1)"

subsection \<open>Printing a value\<close>

text \<open>
  \<open>print(f"...{v}")\<close> writes to a standard output that encodes as UTF-8 and is strict
  about errors, Python's default. A \<open>str\<close> is formatted as it is, so a lone surrogate in it
  cannot be encoded and \<open>print\<close> raises \<open>UnicodeEncodeError\<close> before anything is written.
  Every other value is formatted through \<open>repr\<close>, which escapes the surrogates of the
  strings inside it, and is printed. The encoder reports the first run of surrogates: its
  only character and its position, or the positions of its first and last character.
\<close>

definition is_surrogate :: "nat \<Rightarrow> bool" where
  "is_surrogate c = (0xD800 \<le> c \<and> c \<le> 0xDFFF)"

definition digit :: "nat \<Rightarrow> char" where
  "digit n = ''0123456789abcdef'' ! (n mod 16)"

fun dec :: "nat \<Rightarrow> string" where
  "dec n = (if n < 10 then [digit n] else dec (n div 10) @ [digit (n mod 10)])"

declare dec.simps [simp del]

definition hex4 :: "nat \<Rightarrow> string" where
  "hex4 c = [digit (c div 4096), digit (c div 256), digit (c div 16), digit c]"

definition encode_error :: "nat \<Rightarrow> pystr \<Rightarrow> py_exc option" where
  "encode_error offset s =
     (let start = length (takeWhile (\<lambda>c. \<not> is_surrogate c) s);
          run = takeWhile is_surrogate (drop start s)
      in if run = [] then None
         else if length run = 1 then
           Some (Exc UnicodeEncodeError
             (quote @ ''utf-8'' @ quote @ '' codec can't encode character '' @ quote @
              [CHR 0x5C] @ ''u'' @ hex4 (hd run) @ quote @ '' in position '' @ dec (offset + start) @
              '': surrogates not allowed''))
         else
           Some (Exc UnicodeEncodeError
             (quote @ ''utf-8'' @ quote @ '' codec can't encode characters in position '' @
              dec (offset + start) @ ''-'' @ dec (offset + start + length run - 1) @
              '': surrogates not allowed'')))"

fun print_error :: "string \<Rightarrow> jval \<Rightarrow> py_exc option" where
  "print_error prefix (JStr s) = encode_error (length prefix) s"
| "print_error prefix v = None"

definition print_value :: "string \<Rightarrow> jval \<Rightarrow> 'app world \<Rightarrow> (py_exc + unit) \<times> 'app world" where
  "print_value prefix v w =
     (case print_error prefix v of
        Some e \<Rightarrow> (Inl e, w)
      | None \<Rightarrow> (Inr (), emit (PrintValue prefix v) w))"

text \<open>The values \<open>print\<close> accepts: every value but a \<open>str\<close> that holds a surrogate.\<close>

fun printable :: "jval \<Rightarrow> bool" where
  "printable (JStr s) = list_all (\<lambda>c. \<not> is_surrogate c) s"
| "printable v = True"

subsection \<open>The endpoint\<close>

text \<open>
  The view returns a response, or an exception leaves it (\<open>Inl\<close>) and Flask answers in
  its place. The two prints of the view stand outside any \<open>try\<close>.
\<close>

definition chat :: "vendor \<Rightarrow> request \<Rightarrow> 'app world \<Rightarrow> (py_exc + http_response) \<times> 'app world" where
  "chat vendor request w =
     (if \<not> is_json request then
        (Inr \<lparr>status = 400, body = JDict [(lit ''error'', JStr (lit ''Request must be JSON''))]\<rparr>, w)
      else
        case get_json request of
          Inl e \<Rightarrow> (Inl e, w)
        | Inr data \<Rightarrow>
            (case dict_get data ''message'' of
               Inl e \<Rightarrow> (Inl e, w)
             | Inr user_message \<Rightarrow>
                 if \<not> truthy user_message then
                   (Inr \<lparr>status = 400,
                         body = JDict [(lit ''error'', JStr (lit ''Missing 'message' in request body''))]\<rparr>, w)
                 else
                   (case print_value ''Received message from frontend: '' user_message w of
                      (Inl e, w1) \<Rightarrow> (Inl e, w1)
                    | (Inr u, w1) \<Rightarrow>
                        (case get_gemini_response vendor user_message w1 of
                           (ai_response, w2) \<Rightarrow>
                             (case print_value ''Sending response to frontend: '' ai_response w2 of
                                (Inl e, w3) \<Rightarrow> (Inl e, w3)
                              | (Inr u, w3) \<Rightarrow>
                                  (Inr \<lparr>status = 200, body = JDict [(lit ''response'', ai_response)]\<rparr>,
                                   w3))))))"

subsection \<open>Sample environments and inputs\<close>

text \<open>Concrete worlds, vendors and requests on which the theorems below are evaluated.\<close>

definition env0 :: "unit world" where
  "env0 = module_init (Some ''secret'') ()"

definition env_nokey :: "unit world" where
  "env_nokey = module_init None ()"

definition vendor_fixed :: "post_outcome \<Rightarrow> vendor" where
  "vendor_fixed out p = out"

definition reply :: "nat \<Rightarrow> jval \<Rightarrow> response" where
  "reply code v = \<lparr>status_code = code, http_error_text = ''HTTP error'', json = Inr v\<rparr>"

definition hello_result :: jval where
  "hello_result =
     JDict [(lit ''candidates'',
       JList [JDict [(lit ''content'',
         JDict [(lit ''parts'', JList [JDict [(lit ''text'', JStr (lit ''Hello''))]])])]])]"

definition ask :: "jval \<Rightarrow> request" where
  "ask v = \<lparr>is_json = True, get_json = Inr (JDict [(lit ''message'', v)])\<rparr>"

definition no_text_result :: jval where
  "no_text_result =
     JDict [(lit ''candidates'',
       JList [JDict [(lit ''content'', JDict [(lit ''parts'', JList [JDict []])])]])]"

definition null_candidates_result :: jval where
  "null_candidates_result = JDict [(lit ''candidates'', JNull)]"

text \<open>A reply whose text is the lone surrogate U+D800.\<close>

definition surrogate_result :: jval where
  "surrogate_result =
     JDict [(lit ''candidates'',
       JList [JDict [(lit ''content'',
         JDict [(lit ''parts'', JList [JDict [(lit ''text'', JStr [0xD800])]])])]])]"

section \<open>Properties\<close>

subsection \<open>Effects, frame and results of the building blocks\<close>

lemma emit_simps:
  "GEMINI_API_KEY (emit e w) = GEMINI_API_KEY w"
  "GEMINI_API_URL (emit e w) = GEMINI_API_URL w"
  "app (emit e w) = app w"
  "trace (emit e w) = trace w @ [e]"
  by (simp_all add: emit_def)

lemma outbound_emit: "outbound (emit e w) prompt = outbound w prompt"
  by (simp add: outbound_def emit_simps)

lemma posts_append: "posts (xs @ ys) = posts xs @ posts ys"
  by (induction xs rule: posts.induct) simp_all

lemma posts_snoc:
  "posts (xs @ [Post p]) = posts xs @ [p]"
  "posts (xs @ [Print s]) = posts xs"
  "posts (xs @ [PrintValue s v]) = posts xs"
  by (simp_all add: posts_append)

lemma try_block_frame:
  "GEMINI_API_KEY (snd (try_block vendor prompt w)) = GEMINI_API_KEY w"
  "GEMINI_API_URL (snd (try_block vendor prompt w)) = GEMINI_API_URL w"
  "app (snd (try_block vendor prompt w)) = app w"
  "posts (trace (snd (try_block vendor prompt w))) = posts (trace w) @ [outbound w prompt]"
  by (simp_all add: try_block_def Let_def emit_simps posts_append
        split: post_outcome.split sum.split)

lemma handle_frame:
  "GEMINI_API_KEY (snd (handle e w)) = GEMINI_API_KEY w"
  "GEMINI_API_URL (snd (handle e w)) = GEMINI_API_URL w"
  "app (snd (handle e w)) = app w"
  "posts (trace (snd (handle e w))) = posts (trace w)"
  by (simp_all add: handle_def emit_simps posts_snoc)

lemma get_gemini_response_frame:
  "GEMINI_API_KEY (snd (get_gemini_response vendor prompt w)) = GEMINI_API_KEY w"
  "GEMINI_API_URL (snd (get_gemini_response vendor prompt w)) = GEMINI_API_URL w"
  "app (snd (get_gemini_response vendor prompt w)) = app w"
  "posts (trace (snd (get_gemini_response vendor prompt w))) =
     posts (trace w) @ (if key_truthy (GEMINI_API_KEY w) then [outbound w prompt] else [])"
proof -
  obtain r w1 where tb: "try_block vendor prompt w = (r, w1)"
    by (cases "try_block vendor prompt w")
  have w1: "GEMINI_API_KEY w1 = GEMINI_API_KEY w" "GEMINI_API_URL w1 = GEMINI_API_URL w"
    "app w1 = app w" "posts (trace w1) = posts (trace w) @ [outbound w prompt]"
    using try_block_frame [of vendor prompt w] by (simp_all add: tb)
  show "GEMINI_API_KEY (snd (get_gemini_response vendor prompt w)) = GEMINI_API_KEY w"
    by (cases r) (simp_all add: get_gemini_response_def tb emit_simps handle_frame w1)
  show "GEMINI_API_URL (snd (get_gemini_response vendor prompt w)) = GEMINI_API_URL w"
    by (cases r) (simp_all add: get_gemini_response_def tb emit_simps handle_frame w1)
  show "app (snd (get_gemini_response vendor prompt w)) = app w"
    by (cases r) (simp_all add: get_gemini_response_def tb emit_simps handle_frame w1)
  show "posts (trace (snd (get_gemini_response vendor prompt w))) =
     posts (trace w) @ (if key_truthy (GEMINI_API_KEY w) then [outbound w prompt] else [])"
    by (cases r) (simp_all add: get_gemini_response_def tb emit_simps handle_frame w1 posts_snoc)
qed

lemma try_block_result:
  "fst (try_block vendor prompt w) =
     (case vendor (outbound w prompt) of
        PostRaises e \<Rightarrow> Inl e
      | PostReturns response \<Rightarrow>
          bind (raise_for_status response) (\<lambda>u.
          bind (json response) (\<lambda>result.
          bind (structure_ok result) (\<lambda>ok.
            if ok then part0_text result else Inr (JStr (lit fallback))))))"
  by (simp add: try_block_def Let_def bind_def split: post_outcome.split sum.split)

lemma handle_result:
  "fst (handle e w) =
     JStr (lit (if is_RequestException (cls e)
                then ''An error occurred while connecting to the AI service: '' @ msg e
                else if is_JSONDecodeError (cls e)
                then ''An error occurred while processing the AI's response.''
                else ''An unexpected error occurred: '' @ msg e))"
  by (simp add: handle_def)

lemma get_gemini_response_result:
  "fst (get_gemini_response vendor prompt w) =
     (if \<not> key_truthy (GEMINI_API_KEY w)
      then JStr (lit ''Error: Backend configuration issue. Gemini API Key is missing.'')
      else case fst (try_block vendor prompt w) of
             Inr v \<Rightarrow> v
           | Inl e \<Rightarrow> fst (handle e w))"
  by (cases "try_block vendor prompt w")
     (simp add: get_gemini_response_def handle_result split: sum.split)

lemma map_of_Some_nonempty: "map_of d k = Some x \<Longrightarrow> d \<noteq> []"
  by auto

lemma structure_ok_wellformed:
  assumes "map_of r (lit ''candidates'') = Some (JList (JDict c # cs))"
    and "map_of c (lit ''content'') = Some (JDict ct)"
    and "map_of ct (lit ''parts'') = Some (JList (p # ps))"
  shows "structure_ok (JDict r) = Inr True"
    and "part0_text (JDict r) = item p ''text''"
  using assms map_of_Some_nonempty [OF assms(1)]
  by (simp_all add: structure_ok_def py_and_def bind_def candidates_def candidate0_def
        content_def parts_def part0_def part0_text_def)

lemma get_gemini_response_emit:
  "fst (get_gemini_response vendor prompt (emit x w)) = fst (get_gemini_response vendor prompt w)"
  by (simp add: get_gemini_response_result try_block_result handle_result emit_simps outbound_emit
        cong: sum.case_cong)

text \<open>A string made of 8-bit characters holds no surrogate, so every message of the module prints.\<close>

lemma lit_no_surrogate: "list_all (\<lambda>c. \<not> is_surrogate c) (lit s)"
proof -
  have "(of_char c :: nat) < 256" for c
    by (cases c) simp
  then have "\<not> is_surrogate (of_char c)" for c
    by (simp add: is_surrogate_def not_le less_imp_le less_trans [of _ 256])
  then show ?thesis
    by (simp add: lit_def list_all_iff)
qed

lemma lit_eq_iff: "lit a = lit b \<longleftrightarrow> a = b"
  by (simp add: lit_def inj_map_eq_map inj_on_def)

lemma encode_error_None: "encode_error offset s = None \<longleftrightarrow> list_all (\<lambda>c. \<not> is_surrogate c) s"
proof -
  let ?rest = "dropWhile (\<lambda>c. \<not> is_surrogate c) s"
  have rest: "drop (length (takeWhile (\<lambda>c. \<not> is_surrogate c) s)) s = ?rest"
    by (simp add: dropWhile_eq_drop)
  have "encode_error offset s = None \<longleftrightarrow> takeWhile is_surrogate ?rest = []"
    by (simp add: encode_error_def Let_def rest)
  also have "\<dots> \<longleftrightarrow> ?rest = []"
  proof (cases ?rest)
    case Nil
    show ?thesis unfolding Nil by simp
  next
    case (Cons x xs)
    have "is_surrogate x"
      using hd_dropWhile [of "\<lambda>c. \<not> is_surrogate c" s] unfolding Cons by simp
    then show ?thesis unfolding Cons by simp
  qed
  also have "\<dots> \<longleftrightarrow> list_all (\<lambda>c. \<not> is_surrogate c) s"
    by (simp add: dropWhile_eq_Nil_conv list_all_iff)
  finally show ?thesis .
qed

lemma encode_error_lit: "encode_error offset (lit s) = None"
  by (simp add: encode_error_None lit_no_surrogate)

lemma print_error_None: "print_error prefix v = None \<longleftrightarrow> printable v"
  by (cases v) (simp_all add: encode_error_None)

lemma print_value_simps:
  "printable v \<Longrightarrow> print_value prefix v w = (Inr (), emit (PrintValue prefix v) w)"
  "print_error prefix v = Some e \<Longrightarrow> print_value prefix v w = (Inl e, w)"
  using print_error_None [of prefix v] by (simp_all add: print_value_def)

lemma print_value_cases:
  "print_value prefix v w =
     (if printable v then (Inr (), emit (PrintValue prefix v) w)
      else (Inl (the (print_error prefix v)), w))"
  using print_error_None [of prefix v] by (cases "print_error prefix v") (simp_all add: print_value_def)

lemma print_value_frame:
  "GEMINI_API_KEY (snd (print_value prefix v w)) = GEMINI_API_KEY w"
  "GEMINI_API_URL (snd (print_value prefix v w)) = GEMINI_API_URL w"
  "app (snd (print_value prefix v w)) = app w"
  "posts (trace (snd (print_value prefix v w))) = posts (trace w)"
  "outbound (snd (print_value prefix v w)) prompt = outbound w prompt"
  by (simp_all add: print_value_def emit_simps posts_snoc outbound_emit split: option.split)

lemma chat_result:
  "fst (chat vendor request w) =
     (if \<not> is_json request then
        Inr \<lparr>status = 400, body = JDict [(lit ''error'', JStr (lit ''Request must be JSON''))]\<rparr>
      else
        bind (get_json request) (\<lambda>data.
        bind (dict_get data ''message'') (\<lambda>user_message.
          if \<not> truthy user_message then
            Inr \<lparr>status = 400,
                  body = JDict [(lit ''error'', JStr (lit ''Missing 'message' in request body''))]\<rparr>
          else
            case print_error ''Received message from frontend: '' user_message of
              Some e \<Rightarrow> Inl e
            | None \<Rightarrow>
                (case print_error ''Sending response to frontend: ''
                        (fst (get_gemini_response vendor user_message w)) of
                   Some e \<Rightarrow> Inl e
                 | None \<Rightarrow>
                     Inr \<lparr>status = 200,
                           body = JDict [(lit ''response'',
                             fst (get_gemini_response vendor user_message w))]\<rparr>))))"
  by (simp add: chat_def print_value_def bind_def case_prod_beta get_gemini_response_emit
        split: sum.split option.split)

lemma chat_bindings:
  "GEMINI_API_KEY (snd (chat vendor request w)) = GEMINI_API_KEY w"
  "GEMINI_API_URL (snd (chat vendor request w)) = GEMINI_API_URL w"
  "app (snd (chat vendor request w)) = app w"
  by (simp_all add: chat_def print_value_def case_prod_beta emit_simps get_gemini_response_frame
        split: sum.split option.split)

lemma get_gemini_response_depends:
  assumes "GEMINI_API_KEY w' = GEMINI_API_KEY w"
    and "GEMINI_API_URL w' = GEMINI_API_URL w"
    and "vendor' (outbound w prompt) = vendor (outbound w prompt)"
  shows "fst (get_gemini_response vendor' prompt w') = fst (get_gemini_response vendor prompt w)"
proof -
  have "outbound w' prompt = outbound w prompt"
    by (simp add: outbound_def assms(1) assms(2))
  then have "fst (try_block vendor' prompt w') = fst (try_block vendor prompt w)"
    by (simp add: try_block_result assms(3))
  then show ?thesis
    by (simp add: get_gemini_response_result handle_result assms(1) cong: sum.case_cong)
qed

lemma chat_posts:
  "posts (trace (snd (chat vendor request w))) =
     posts (trace w) @
     (if is_json request then
        (case get_json request of
           Inl e \<Rightarrow> []
         | Inr data \<Rightarrow>
             (case dict_get data ''message'' of
                Inl e \<Rightarrow> []
              | Inr user_message \<Rightarrow>
                  if truthy user_message \<and> printable user_message \<and> key_truthy (GEMINI_API_KEY w)
                  then [outbound w user_message] else []))
      else [])"
  by (simp add: chat_def print_value_cases case_prod_beta emit_simps get_gemini_response_frame
        posts_append outbound_emit split: sum.split)

lemma try_block_raises:
  "vendor (outbound w prompt) = PostRaises e \<Longrightarrow> fst (try_block vendor prompt w) = Inl e"
  "vendor (outbound w prompt) = PostReturns r \<Longrightarrow> 400 \<le> status_code r \<Longrightarrow> status_code r < 600 \<Longrightarrow>
     fst (try_block vendor prompt w) = Inl (Exc HTTPError (http_error_text r))"
  "vendor (outbound w prompt) = PostReturns r \<Longrightarrow> raise_for_status r = Inr () \<Longrightarrow> json r = Inl e \<Longrightarrow>
     fst (try_block vendor prompt w) = Inl e"
  "vendor (outbound w prompt) = PostReturns r \<Longrightarrow> raise_for_status r = Inr () \<Longrightarrow>
     json r = Inr result \<Longrightarrow> structure_ok result = Inl e \<Longrightarrow>
     fst (try_block vendor prompt w) = Inl e"
  "vendor (outbound w prompt) = PostReturns r \<Longrightarrow> raise_for_status r = Inr () \<Longrightarrow>
     json r = Inr result \<Longrightarrow> structure_ok result = Inr True \<Longrightarrow> part0_text result = Inl e \<Longrightarrow>
     fst (try_block vendor prompt w) = Inl e"
  by (simp_all add: try_block_result bind_def raise_for_status_def)

lemma structure_ok_lacking:
  "\<not> truthy result \<Longrightarrow> structure_ok result = Inr False"
  "map_of d (lit ''candidates'') = None \<Longrightarrow> structure_ok (JDict d) = Inr False"
  "map_of d (lit ''candidates'') = Some (JList []) \<Longrightarrow> structure_ok (JDict d) = Inr False"
  "map_of d (lit ''candidates'') = Some (JList (JDict c # cs)) \<Longrightarrow> map_of c (lit ''content'') = None \<Longrightarrow>
     structure_ok (JDict d) = Inr False"
  "map_of d (lit ''candidates'') = Some (JList (JDict c # cs)) \<Longrightarrow>
     map_of c (lit ''content'') = Some (JDict ct) \<Longrightarrow>
     map_of ct (lit ''parts'') = None \<Longrightarrow> structure_ok (JDict d) = Inr False"
  "map_of d (lit ''candidates'') = Some (JList (JDict c # cs)) \<Longrightarrow>
     map_of c (lit ''content'') = Some (JDict ct) \<Longrightarrow>
     map_of ct (lit ''parts'') = Some (JList []) \<Longrightarrow> structure_ok (JDict d) = Inr False"
  by (simp_all add: structure_ok_def py_and_def bind_def candidates_def candidate0_def
        content_def parts_def)

text \<open>When the view reaches its last line, the answer is 200 with what the relay returned.\<close>

lemma chat_accepted:
  assumes "is_json request" and "get_json request = Inr (JDict d)"
    and "map_of d (lit ''message'') = Some m" and "truthy m" and "printable m"
    and "printable (fst (get_gemini_response vendor m w))"
  shows "fst (chat vendor request w) =
           Inr \<lparr>status = 200,
                 body = JDict [(lit ''response'', fst (get_gemini_response vendor m w))]\<rparr>"
  using assms print_error_None [of "''Received message from frontend: ''" m]
    print_error_None [of "''Sending response to frontend: ''" "fst (get_gemini_response vendor m w)"]
  by (simp add: chat_result bind_def)

text \<open>What \<open>print\<close> does on the texts the module builds and on the sample texts.\<close>

lemma lit_Nil_iff: "lit s = [] \<longleftrightarrow> s = []"
  by (simp add: lit_def)

lemma print_error_lit: "print_error prefix (JStr (lit s)) = None"
  by (simp add: encode_error_lit)

lemma printable_lit: "printable (JStr (lit s))"
  by (simp add: lit_no_surrogate)

lemma surrogate_at:
  "encode_error n [0xD800] =
     Some (Exc UnicodeEncodeError
            (quote @ ''utf-8'' @ quote @ '' codec can't encode character '' @ quote @ [CHR 0x5C] @
             ''ud800'' @ quote @ '' in position '' @ dec n @ '': surrogates not allowed''))"
  by (simp add: encode_error_def is_surrogate_def hex4_def digit_def)

lemma print_received_surrogate:
  "print_error ''Received message from frontend: '' (JStr [0xD800]) =
     Some (Exc UnicodeEncodeError
            (quote @ ''utf-8'' @ quote @ '' codec can't encode character '' @ quote @ [CHR 0x5C] @
             ''ud800'' @ quote @ '' in position 32: surrogates not allowed''))"
proof -
  have "length ''Received message from frontend: '' = 32"
    by simp
  then have "print_error ''Received message from frontend: '' (JStr [0xD800]) =
             encode_error 32 [0xD800]"
    by (simp only: print_error.simps)
  moreover have "dec 32 = ''32''"
    by (simp add: dec.simps digit_def)
  ultimately show ?thesis
    by (simp add: surrogate_at)
qed

lemma print_sending_surrogate:
  "print_error ''Sending response to frontend: '' (JStr [0xD800]) =
     Some (Exc UnicodeEncodeError
            (quote @ ''utf-8'' @ quote @ '' codec can't encode character '' @ quote @ [CHR 0x5C] @
             ''ud800'' @ quote @ '' in position 30: surrogates not allowed''))"
proof -
  have "length ''Sending response to frontend: '' = 30"
    by simp
  then have "print_error ''Sending response to frontend: '' (JStr [0xD800]) =
             encode_error 30 [0xD800]"
    by (simp only: print_error.simps)
  moreover have "dec 30 = ''30''"
    by (simp add: dec.simps digit_def)
  ultimately show ?thesis
    by (simp add: surrogate_at)
qed

lemma try_block_raises_iff:
  "fst (try_block vendor prompt w) = Inl x \<longleftrightarrow>
     (vendor (outbound w prompt) = PostRaises x \<or>
      (\<exists>r. vendor (outbound w prompt) = PostReturns r \<and>
         (400 \<le> status_code r \<and> status_code r < 600 \<and> x = Exc HTTPError (http_error_text r) \<or>
          (status_code r < 400 \<or> 600 \<le> status_code r) \<and>
          (json r = Inl x \<or>
           (\<exists>result. json r = Inr result \<and>
              (structure_ok result = Inl x \<or>
               structure_ok result = Inr True \<and> part0_text result = Inl x))))))"
proof (cases "vendor (outbound w prompt)")
  case (PostRaises e)
  then show ?thesis by (auto simp add: try_block_result)
next
  case (PostReturns r)
  show ?thesis
  proof (cases "400 \<le> status_code r \<and> status_code r < 600")
    case True
    then show ?thesis
      using PostReturns by (auto simp add: try_block_result raise_for_status_def bind_def)
  next
    case False
    then have ok: "raise_for_status r = Inr ()" "status_code r < 400 \<or> 600 \<le> status_code r"
      by (auto simp add: raise_for_status_def)
    show ?thesis
    proof (cases "json r")
      case (Inl e)
      then show ?thesis
        using PostReturns ok False by (auto simp add: try_block_result bind_def)
    next
      case (Inr result)
      show ?thesis
      proof (cases "structure_ok result")
        case (Inl e)
        then show ?thesis
          using PostReturns ok False Inr by (auto simp add: try_block_result bind_def)
      next
        case ok': (Inr b)
        then show ?thesis
          using PostReturns ok False Inr by (cases b) (auto simp add: try_block_result bind_def)
      qed
    qed
  qed
qed

lemma try_block_returns:
  assumes "vendor (outbound w prompt) = PostReturns r"
    and "status_code r < 400 \<or> 600 \<le> status_code r"
    and "json r = Inr result"
  shows "structure_ok result = Inr False \<Longrightarrow> fst (try_block vendor prompt w) = Inr (JStr (lit fallback))"
    and "structure_ok result = Inr True \<Longrightarrow> part0_text result = Inr t \<Longrightarrow>
         fst (try_block vendor prompt w) = Inr t"
  using assms by (auto simp add: try_block_result raise_for_status_def bind_def)

subsection \<open>C1: the relayed text\<close>

text \<open>
  As stated, C1 fails at three inputs. A vendor reply of status 500 whose JSON has the
  expected shape is stopped by \<open>raise_for_status\<close>, and the answer carries the connection
  message instead of the text. A message that holds a lone surrogate makes the first
  \<open>print\<close> of the view raise, and a vendor text that holds one makes the second raise: the
  exception leaves the view.
\<close>

theorem chat_relays_text_counterexample:
  "fst (chat (vendor_fixed (PostReturns (reply 500 hello_result))) (ask (JStr (lit ''Hi''))) env0) =
     Inr \<lparr>status = 200,
           body = JDict [(lit ''response'',
             JStr (lit ''An error occurred while connecting to the AI service: HTTP error''))]\<rparr> \<and>
   fst (chat (vendor_fixed (PostReturns (reply 200 hello_result))) (ask (JStr [0xD800])) env0) =
     Inl (Exc UnicodeEncodeError
            (quote @ ''utf-8'' @ quote @ '' codec can't encode character '' @ quote @ [CHR 0x5C] @
             ''ud800'' @ quote @ '' in position 32: surrogates not allowed'')) \<and>
   fst (chat (vendor_fixed (PostReturns (reply 200 surrogate_result))) (ask (JStr (lit ''Hi''))) env0) =
     Inl (Exc UnicodeEncodeError
            (quote @ ''utf-8'' @ quote @ '' codec can't encode character '' @ quote @ [CHR 0x5C] @
             ''ud800'' @ quote @ '' in position 30: surrogates not allowed''))"
proof -
  have "fst (get_gemini_response (vendor_fixed (PostReturns (reply 500 hello_result)))
          (JStr (lit ''Hi'')) env0) =
        JStr (lit ''An error occurred while connecting to the AI service: HTTP error'')"
    by (simp add: get_gemini_response_result try_block_result handle_result bind_def env0_def
          module_init_def vendor_fixed_def reply_def raise_for_status_def)
  then have a: "fst (chat (vendor_fixed (PostReturns (reply 500 hello_result))) (ask (JStr (lit ''Hi''))) env0) =
     Inr \<lparr>status = 200,
           body = JDict [(lit ''response'',
             JStr (lit ''An error occurred while connecting to the AI service: HTTP error''))]\<rparr>"
    by (simp add: chat_result bind_def ask_def print_error_lit lit_Nil_iff del: print_error.simps)
  have b: "fst (chat (vendor_fixed (PostReturns (reply 200 hello_result))) (ask (JStr [0xD800])) env0) =
     Inl (Exc UnicodeEncodeError
            (quote @ ''utf-8'' @ quote @ '' codec can't encode character '' @ quote @ [CHR 0x5C] @
             ''ud800'' @ quote @ '' in position 32: surrogates not allowed''))"
    by (simp add: chat_result bind_def ask_def print_received_surrogate del: print_error.simps)
  have "fst (get_gemini_response (vendor_fixed (PostReturns (reply 200 surrogate_result)))
          (JStr (lit ''Hi'')) env0) = JStr [0xD800]"
    by (simp add: get_gemini_response_result try_block_result bind_def env0_def module_init_def
          vendor_fixed_def reply_def raise_for_status_def surrogate_result_def structure_ok_def
          py_and_def candidates_def candidate0_def content_def parts_def part0_def part0_text_def)
  then have c: "fst (chat (vendor_fixed (PostReturns (reply 200 surrogate_result))) (ask (JStr (lit ''Hi''))) env0) =
     Inl (Exc UnicodeEncodeError
            (quote @ ''utf-8'' @ quote @ '' codec can't encode character '' @ quote @ [CHR 0x5C] @
             ''ud800'' @ quote @ '' in position 30: surrogates not allowed''))"
    by (simp add: chat_result bind_def ask_def print_error_lit print_sending_surrogate lit_Nil_iff
          del: print_error.simps)
  from a b c show ?thesis
    by blast
qed

text \<open>
  C1, amended. A POST to /chat whose JSON body carries a non-empty \<open>message\<close> string, with the
  API key set (non-empty, the test the code applies) and a vendor reply of a status outside
  400..599 whose JSON has a non-empty \<open>candidates\<close> list, the first candidate's
  \<open>content.parts\<close> non-empty and a \<open>text\<close> field in its first part, is answered with status
  200 and the body \<open>{"response": t}\<close>, \<open>t\<close> being exactly
  \<open>result["candidates"][0]["content"]["parts"][0]["text"]\<close>, provided the message and \<open>t\<close>
  hold no lone surrogate.
\<close>

theorem chat_relays_text:
  assumes "is_json request"
    and "get_json request = Inr (JDict d)"
    and "map_of d (lit ''message'') = Some (JStr m)"
    and "m \<noteq> []"
    and "key_truthy (GEMINI_API_KEY w)"
    and "vendor (outbound w (JStr m)) = PostReturns response"
    and "status_code response < 400 \<or> 600 \<le> status_code response"
    and "json response = Inr (JDict r)"
    and "map_of r (lit ''candidates'') = Some (JList (JDict c # cs))"
    and "map_of c (lit ''content'') = Some (JDict ct)"
    and "map_of ct (lit ''parts'') = Some (JList (JDict p # ps))"
    and "map_of p (lit ''text'') = Some t"
    and "printable (JStr m)"
    and "printable t"
  shows "fst (chat vendor request w) = Inr \<lparr>status = 200, body = JDict [(lit ''response'', t)]\<rparr>"
proof -
  have ok: "structure_ok (JDict r) = Inr True" "part0_text (JDict r) = Inr t"
    using structure_ok_wellformed [OF assms(9) assms(10) assms(11)] assms(12) by simp_all
  have "raise_for_status response = Inr ()"
    using assms(7) by (auto simp add: raise_for_status_def)
  then have "fst (try_block vendor (JStr m) w) = Inr t"
    by (simp add: try_block_result assms(6) assms(8) ok bind_def)
  then have t: "fst (get_gemini_response vendor (JStr m) w) = t"
    by (simp add: get_gemini_response_result assms(5))
  have "truthy (JStr m)"
    using assms(4) by simp
  then show ?thesis
    using chat_accepted [OF assms(1) assms(2) assms(3) _ assms(13), where vendor = vendor and w = w]
      assms(14) t by simp
qed

theorem chat_relays_text_witness:
  "fst (chat (vendor_fixed (PostReturns (reply 200 hello_result))) (ask (JStr (lit ''Hi''))) env0) =
     Inr \<lparr>status = 200, body = JDict [(lit ''response'', JStr (lit ''Hello''))]\<rparr>"
  using chat_relays_text [of "ask (JStr (lit ''Hi''))" "[(lit ''message'', JStr (lit ''Hi''))]" "lit ''Hi''"
      env0 "vendor_fixed (PostReturns (reply 200 hello_result))" "reply 200 hello_result"
      "[(lit ''candidates'',
       JList [JDict [(lit ''content'',
         JDict [(lit ''parts'', JList [JDict [(lit ''text'', JStr (lit ''Hello''))]])])]])]"
      "[(lit ''content'', JDict [(lit ''parts'', JList [JDict [(lit ''text'', JStr (lit ''Hello''))]])])]"
      "[]" "[(lit ''parts'', JList [JDict [(lit ''text'', JStr (lit ''Hello''))]])]"
      "[(lit ''text'', JStr (lit ''Hello''))]" "[]" "JStr (lit ''Hello'')"]
  by (simp add: ask_def env0_def module_init_def vendor_fixed_def reply_def hello_result_def
        lit_no_surrogate lit_eq_iff lit_Nil_iff)

subsection \<open>C2: validation of the inbound request\<close>

text \<open>
  As stated, C2 fails at two requests that Flask recognises as JSON. A body that is JSON
  but no object (here the empty list) has no \<open>message\<close> field, and \<open>data.get\<close> raises
  \<open>AttributeError\<close> instead of the 400 answer. A body that is not JSON makes
  \<open>request.get_json()\<close> raise, so the view never returns \<open>Request must be JSON\<close>.
\<close>

theorem chat_validation_counterexample:
  "fst (chat (vendor_fixed (PostReturns (reply 200 hello_result)))
          \<lparr>is_json = True, get_json = Inr (JList [])\<rparr> env0) =
     Inl (Exc AttributeError
            (quote @ ''list'' @ quote @ '' object has no attribute '' @ quote @ ''get'' @ quote)) \<and>
   fst (chat (vendor_fixed (PostReturns (reply 200 hello_result)))
          \<lparr>is_json = True, get_json = Inl (Exc BadRequest ''400 Bad Request'')\<rparr> env0) =
     Inl (Exc BadRequest ''400 Bad Request'')"
  by (simp add: chat_def)

text \<open>
  C2, amended. A request that Flask does not recognise as JSON (\<open>request.is_json\<close> is false)
  is answered with status 400 and \<open>{"error": "Request must be JSON"}\<close>. A JSON request
  whose body is an object without a \<open>message\<close> key is answered with status 400 and
  \<open>{"error": "Missing 'message' in request body"}\<close>. A JSON request whose body does not
  parse leaves the view with the exception \<open>get_json\<close> raised. In all three cases the
  world is returned as it was: nothing is printed and no outbound call is made.
\<close>

theorem chat_validation:
  "(\<not> is_json request \<longrightarrow>
      chat vendor request w =
        (Inr \<lparr>status = 400, body = JDict [(lit ''error'', JStr (lit ''Request must be JSON''))]\<rparr>, w)) \<and>
   (is_json request \<and> get_json request = Inr (JDict d) \<and> map_of d (lit ''message'') = None \<longrightarrow>
      chat vendor request w =
        (Inr \<lparr>status = 400,
              body = JDict [(lit ''error'', JStr (lit ''Missing 'message' in request body''))]\<rparr>, w)) \<and>
   (is_json request \<and> get_json request = Inl e \<longrightarrow> chat vendor request w = (Inl e, w))"
  by (simp add: chat_def)

theorem chat_validation_witness:
  "chat (vendor_fixed (PostReturns (reply 200 hello_result)))
     \<lparr>is_json = False, get_json = Inr (JDict [(lit ''message'', JStr (lit ''Hi''))])\<rparr> env0 =
     (Inr \<lparr>status = 400, body = JDict [(lit ''error'', JStr (lit ''Request must be JSON''))]\<rparr>, env0) \<and>
   chat (vendor_fixed (PostReturns (reply 200 hello_result)))
     \<lparr>is_json = True, get_json = Inr (JDict [(lit ''other'', JStr (lit ''Hi''))])\<rparr> env0 =
     (Inr \<lparr>status = 400,
           body = JDict [(lit ''error'', JStr (lit ''Missing 'message' in request body''))]\<rparr>, env0)"
  using chat_validation [of "\<lparr>is_json = False, get_json = Inr (JDict [(lit ''message'', JStr (lit ''Hi''))])\<rparr>"
      "vendor_fixed (PostReturns (reply 200 hello_result))" env0 "[]"]
    chat_validation [of "\<lparr>is_json = True, get_json = Inr (JDict [(lit ''other'', JStr (lit ''Hi''))])\<rparr>"
      "vendor_fixed (PostReturns (reply 200 hello_result))" env0 "[(lit ''other'', JStr (lit ''Hi''))]"]
  by (simp add: lit_eq_iff)

subsection \<open>C3: the outbound call\<close>

text \<open>
  C3. For every prompt \<open>p\<close> (a string or any other value), when the API key is set,
  \<open>get_gemini_response\<close> issues exactly one outbound POST, to the URL bound to
  \<open>GEMINI_API_URL\<close>, with the JSON payload
  \<open>{"contents": [{"role": "user", "parts": [{"text": p}]}]}\<close>: the payload depends on \<open>p\<close>
  through the embedded text only.
\<close>

theorem get_gemini_response_outbound:
  assumes "key_truthy (GEMINI_API_KEY w)"
  shows "posts (trace (snd (get_gemini_response vendor p w))) =
           posts (trace w) @
           [\<lparr>url = GEMINI_API_URL w,
             headers = [(''Content-Type'', ''application/json'')],
             params = [(''key'', GEMINI_API_KEY w)],
             json_payload =
               JDict [(lit ''contents'',
                 JList [JDict [(lit ''role'', JStr (lit ''user'')),
                               (lit ''parts'', JList [JDict [(lit ''text'', p)]])]])]\<rparr>]"
  using assms by (simp add: get_gemini_response_frame outbound_def payload_def)

theorem get_gemini_response_outbound_witness:
  "posts (trace (snd (get_gemini_response (vendor_fixed (PostRaises (Exc Timeout ''timed out'')))
       (JStr (lit ''Hi'')) env0))) =
     [\<lparr>url = ''https://generativelanguage.googleapis.com/v1beta/models/gemini-2.0-flash:generateContent'',
       headers = [(''Content-Type'', ''application/json'')],
       params = [(''key'', Some ''secret'')],
       json_payload =
         JDict [(lit ''contents'',
           JList [JDict [(lit ''role'', JStr (lit ''user'')),
                         (lit ''parts'', JList [JDict [(lit ''text'', JStr (lit ''Hi''))]])]])]\<rparr>]"
  using get_gemini_response_outbound [of env0
      "vendor_fixed (PostRaises (Exc Timeout ''timed out''))" "JStr (lit ''Hi'')"]
  by (simp add: env0_def module_init_def)

subsection \<open>C4: the failure modes and their messages\<close>

text \<open>
  As stated, C4 fails: two connection failures with different exception texts are reported
  with different strings, so the message is not fixed; and a missing API key is a failure
  outside the three listed, with a message of its own.
\<close>

theorem failure_text_counterexample:
  "fst (get_gemini_response (vendor_fixed (PostRaises (Exc ConnectionError ''Connection refused'')))
          (JStr (lit ''Hi'')) env0) =
     JStr (lit ''An error occurred while connecting to the AI service: Connection refused'') \<and>
   fst (get_gemini_response (vendor_fixed (PostRaises (Exc Timeout ''Read timed out'')))
          (JStr (lit ''Hi'')) env0) =
     JStr (lit ''An error occurred while connecting to the AI service: Read timed out'') \<and>
   fst (get_gemini_response (vendor_fixed (PostRaises (Exc Timeout ''Read timed out'')))
          (JStr (lit ''Hi'')) env_nokey) =
     JStr (lit ''Error: Backend configuration issue. Gemini API Key is missing.'')"
  by (simp add: get_gemini_response_result try_block_result handle_result env0_def env_nokey_def
        module_init_def vendor_fixed_def)

text \<open>
  C4, amended. The failures of a request and what each is mapped to:
  \<^item> the request is not recognised as JSON: status 400, the fixed message
    \<open>Request must be JSON\<close>;
  \<^item> the body does not parse: the exception of \<open>get_json\<close> leaves the view;
  \<^item> the body is an object whose \<open>message\<close> is missing or falsy: status 400, the fixed
    message \<open>Missing 'message' in request body\<close>.

  For a body that is an object with a truthy \<open>message\<close> holding no lone surrogate the
  answer has status 200 and the shape \<open>{"response": a}\<close>, where
  \<^item> the API key is not set: \<open>a\<close> is the fixed message of the missing key;
  \<^item> the \<open>try\<close> raises a \<open>RequestException\<close>: \<open>a\<close> is a fixed prefix followed by the text
    of the exception;
  \<^item> the \<open>try\<close> raises a JSON decode error that is no \<open>RequestException\<close>: \<open>a\<close> is the
    fixed processing message;
  \<^item> the \<open>try\<close> raises anything else: \<open>a\<close> is a fixed prefix followed by the text of the
    exception;
  \<^item> the reply passes the status check and parses, and the guard finds its shape
    lacking: \<open>a\<close> is the fixed fallback;
  \<^item> the guard accepts the reply and its text \<open>t\<close> holds no lone surrogate: \<open>a\<close> is \<open>t\<close>.

  The \<open>try\<close> raises exactly when the call raises, or the reply has a status in 400..599
  (an \<open>HTTPError\<close>), or its JSON does not parse, or the guard or the extraction raises.
\<close>

theorem chat_failure_modes:
  "(\<not> is_json request \<longrightarrow>
      fst (chat vendor request w) =
        Inr \<lparr>status = 400, body = JDict [(lit ''error'', JStr (lit ''Request must be JSON''))]\<rparr>) \<and>
   (is_json request \<and> get_json request = Inl e \<longrightarrow> fst (chat vendor request w) = Inl e) \<and>
   (is_json request \<and> get_json request = Inr (JDict d) \<and>
    (map_of d (lit ''message'') = None \<or> (\<exists>v. map_of d (lit ''message'') = Some v \<and> \<not> truthy v)) \<longrightarrow>
      fst (chat vendor request w) =
        Inr \<lparr>status = 400,
              body = JDict [(lit ''error'', JStr (lit ''Missing 'message' in request body''))]\<rparr>) \<and>
   (is_json request \<and> get_json request = Inr (JDict d) \<and> map_of d (lit ''message'') = Some m \<and>
    truthy m \<and> printable m \<longrightarrow>
      (\<not> key_truthy (GEMINI_API_KEY w) \<longrightarrow>
         fst (chat vendor request w) =
           Inr \<lparr>status = 200,
                 body = JDict [(lit ''response'',
                   JStr (lit ''Error: Backend configuration issue. Gemini API Key is missing.''))]\<rparr>) \<and>
      (key_truthy (GEMINI_API_KEY w) \<longrightarrow>
         (\<forall>x. fst (try_block vendor m w) = Inl x \<longrightarrow>
            fst (chat vendor request w) =
              Inr \<lparr>status = 200,
                    body = JDict [(lit ''response'',
                      JStr (lit (if is_RequestException (cls x)
                                 then ''An error occurred while connecting to the AI service: '' @ msg x
                                 else if is_JSONDecodeError (cls x)
                                 then ''An error occurred while processing the AI's response.''
                                 else ''An unexpected error occurred: '' @ msg x)))]\<rparr>) \<and>
         (\<forall>r result.
            vendor (outbound w m) = PostReturns r \<and> (status_code r < 400 \<or> 600 \<le> status_code r) \<and>
            json r = Inr result \<and> structure_ok result = Inr False \<longrightarrow>
            fst (chat vendor request w) =
              Inr \<lparr>status = 200,
                    body = JDict [(lit ''response'',
                      JStr (lit ''Sorry, I couldn't get a valid response from the AI. Please try again.''))]\<rparr>) \<and>
         (\<forall>r result t.
            vendor (outbound w m) = PostReturns r \<and> (status_code r < 400 \<or> 600 \<le> status_code r) \<and>
            json r = Inr result \<and> structure_ok result = Inr True \<and> part0_text result = Inr t \<and>
            printable t \<longrightarrow>
            fst (chat vendor request w) =
              Inr \<lparr>status = 200, body = JDict [(lit ''response'', t)]\<rparr>)) \<and>
      (\<forall>x. fst (try_block vendor m w) = Inl x \<longleftrightarrow>
         (vendor (outbound w m) = PostRaises x \<or>
          (\<exists>r. vendor (outbound w m) = PostReturns r \<and>
             (400 \<le> status_code r \<and> status_code r < 600 \<and> x = Exc HTTPError (http_error_text r) \<or>
              (status_code r < 400 \<or> 600 \<le> status_code r) \<and>
              (json r = Inl x \<or>
               (\<exists>result. json r = Inr result \<and>
                  (structure_ok result = Inl x \<or>
                   structure_ok result = Inr True \<and> part0_text result = Inl x))))))))"
proof -
  have not_json: "fst (chat vendor request w) =
        Inr \<lparr>status = 400, body = JDict [(lit ''error'', JStr (lit ''Request must be JSON''))]\<rparr>"
    if "\<not> is_json request"
    using that by (simp add: chat_result)
  have unparsed: "fst (chat vendor request w) = Inl e"
    if "is_json request \<and> get_json request = Inl e"
    using that by (simp add: chat_result bind_def)
  have missing: "fst (chat vendor request w) =
        Inr \<lparr>status = 400,
              body = JDict [(lit ''error'', JStr (lit ''Missing 'message' in request body''))]\<rparr>"
    if "is_json request \<and> get_json request = Inr (JDict d) \<and>
        (map_of d (lit ''message'') = None \<or> (\<exists>v. map_of d (lit ''message'') = Some v \<and> \<not> truthy v))"
    using that by (auto simp add: chat_result bind_def)
  have relay: "fst (chat vendor request w) = Inr \<lparr>status = 200, body = JDict [(lit ''response'', a)]\<rparr>"
    if "is_json request \<and> get_json request = Inr (JDict d) \<and> map_of d (lit ''message'') = Some m \<and>
        truthy m \<and> printable m"
      and "fst (get_gemini_response vendor m w) = a" and "printable a" for a
    using that chat_accepted [of request d m vendor w] by simp
  have nokey: "fst (get_gemini_response vendor m w) =
        JStr (lit ''Error: Backend configuration issue. Gemini API Key is missing.'')"
    if "\<not> key_truthy (GEMINI_API_KEY w)"
    using that by (simp add: get_gemini_response_result)
  have raised: "fst (get_gemini_response vendor m w) =
        JStr (lit (if is_RequestException (cls x)
                   then ''An error occurred while connecting to the AI service: '' @ msg x
                   else if is_JSONDecodeError (cls x)
                   then ''An error occurred while processing the AI's response.''
                   else ''An unexpected error occurred: '' @ msg x))"
    if "key_truthy (GEMINI_API_KEY w)" "fst (try_block vendor m w) = Inl x" for x
    using that by (simp add: get_gemini_response_result handle_result)
  have shape: "fst (get_gemini_response vendor m w) =
        JStr (lit ''Sorry, I couldn't get a valid response from the AI. Please try again.'')"
    if "key_truthy (GEMINI_API_KEY w)" "vendor (outbound w m) = PostReturns r"
      "status_code r < 400 \<or> 600 \<le> status_code r" "json r = Inr result"
      "structure_ok result = Inr False" for r result
    using that try_block_returns(1) [of vendor w m r result]
    by (simp add: get_gemini_response_result fallback_def)
  have good: "fst (get_gemini_response vendor m w) = t"
    if "key_truthy (GEMINI_API_KEY w)" "vendor (outbound w m) = PostReturns r"
      "status_code r < 400 \<or> 600 \<le> status_code r" "json r = Inr result"
      "structure_ok result = Inr True" "part0_text result = Inr t" for r result t
    using that try_block_returns(2) [of vendor w m r result t]
    by (simp add: get_gemini_response_result)
  show ?thesis
    using not_json unparsed missing relay [OF _ nokey printable_lit]
      relay [OF _ raised printable_lit] relay [OF _ shape printable_lit] relay [OF _ good]
      try_block_raises_iff [of vendor m w]
    by blast
qed

theorem chat_failure_modes_witness:
  "fst (chat (vendor_fixed (PostRaises (Exc Timeout ''timed out''))) (ask (JStr (lit ''Hi''))) env0) =
     Inr \<lparr>status = 200,
           body = JDict [(lit ''response'',
             JStr (lit ''An error occurred while connecting to the AI service: timed out''))]\<rparr> \<and>
   fst (chat (vendor_fixed (PostRaises (Exc Timeout ''timed out''))) (ask (JStr (lit ''Hi''))) env_nokey) =
     Inr \<lparr>status = 200,
           body = JDict [(lit ''response'',
             JStr (lit ''Error: Backend configuration issue. Gemini API Key is missing.''))]\<rparr>"
proof -
  let ?v = "vendor_fixed (PostRaises (Exc Timeout ''timed out''))"
  let ?d = "[(lit ''message'', JStr (lit ''Hi''))]"
  have req: "is_json (ask (JStr (lit ''Hi''))) \<and> get_json (ask (JStr (lit ''Hi''))) = Inr (JDict ?d) \<and>
      map_of ?d (lit ''message'') = Some (JStr (lit ''Hi'')) \<and> truthy (JStr (lit ''Hi'')) \<and>
      printable (JStr (lit ''Hi''))"
    by (simp add: ask_def lit_Nil_iff lit_no_surrogate)
  have key: "key_truthy (GEMINI_API_KEY env0)" "\<not> key_truthy (GEMINI_API_KEY env_nokey)"
    by (simp_all add: env0_def env_nokey_def module_init_def)
  have tb: "fst (try_block ?v (JStr (lit ''Hi'')) env0) = Inl (Exc Timeout ''timed out'')"
    by (simp add: try_block_result vendor_fixed_def)
  have "fst (chat ?v (ask (JStr (lit ''Hi''))) env0) =
     Inr \<lparr>status = 200,
           body = JDict [(lit ''response'',
             JStr (lit ''An error occurred while connecting to the AI service: timed out''))]\<rparr>"
    using chat_failure_modes [of "ask (JStr (lit ''Hi''))" ?v env0 "Exc BadRequest []" ?d "JStr (lit ''Hi'')"]
      req key(1) tb by simp
  moreover have "fst (chat ?v (ask (JStr (lit ''Hi''))) env_nokey) =
     Inr \<lparr>status = 200,
           body = JDict [(lit ''response'',
             JStr (lit ''Error: Backend configuration issue. Gemini API Key is missing.''))]\<rparr>"
    using chat_failure_modes [of "ask (JStr (lit ''Hi''))" ?v env_nokey "Exc BadRequest []" ?d "JStr (lit ''Hi'')"]
      req key(2) by simp
  ultimately show ?thesis
    by simp
qed

subsection \<open>C5: exceptions of the relay are caught\<close>

text \<open>
  C5. For every prompt, whenever the body of the \<open>try\<close> raises (the call itself, the status
  check on a 4xx or 5xx reply, the JSON parse, or the unwrapping of the result; see
  \<open>try_block_raises\<close>), \<open>get_gemini_response\<close> returns a string to its caller: the
  connection message with the text of the exception for a \<open>RequestException\<close>, the
  processing message for a JSON decode error, the unexpected-error message with the text of
  the exception for anything else.
\<close>

theorem get_gemini_response_catches:
  assumes "key_truthy (GEMINI_API_KEY w)"
    and "fst (try_block vendor prompt w) = Inl e"
  shows "fst (get_gemini_response vendor prompt w) =
           JStr (lit (if is_RequestException (cls e)
                      then ''An error occurred while connecting to the AI service: '' @ msg e
                      else if is_JSONDecodeError (cls e)
                      then ''An error occurred while processing the AI's response.''
                      else ''An unexpected error occurred: '' @ msg e))"
  using assms by (simp add: get_gemini_response_result handle_result)

theorem get_gemini_response_catches_witness:
  "fst (get_gemini_response (vendor_fixed (PostReturns (reply 503 JNull))) (JStr (lit ''Hi'')) env0) =
     JStr (lit ''An error occurred while connecting to the AI service: HTTP error'')"
proof -
  have k: "key_truthy (GEMINI_API_KEY env0)"
    by (simp add: env0_def module_init_def)
  have r: "fst (try_block (vendor_fixed (PostReturns (reply 503 JNull))) (JStr (lit ''Hi'')) env0) =
             Inl (Exc HTTPError ''HTTP error'')"
    by (simp add: try_block_result vendor_fixed_def reply_def raise_for_status_def bind_def)
  show ?thesis
    using get_gemini_response_catches [OF k r] by simp
qed

subsection \<open>C6: the number of outbound calls\<close>

text \<open>
  As stated, C6 fails: a request that is not JSON, a request with an empty \<open>message\<close>, and
  a valid request on a server without API key are all handled without any outbound call.
\<close>

theorem chat_outbound_calls_counterexample:
  "posts (trace (snd (chat (vendor_fixed (PostReturns (reply 200 hello_result)))
       \<lparr>is_json = False, get_json = Inr (JDict [(lit ''message'', JStr (lit ''Hi''))])\<rparr> env0))) = [] \<and>
   posts (trace (snd (chat (vendor_fixed (PostReturns (reply 200 hello_result)))
       (ask (JStr [])) env0))) = [] \<and>
   posts (trace (snd (chat (vendor_fixed (PostReturns (reply 200 hello_result)))
       (ask (JStr (lit ''Hi''))) env_nokey))) = []"
  by (simp add: chat_posts ask_def env0_def env_nokey_def module_init_def)

text \<open>
  C6, amended. A request to /chat performs at most one outbound call. It performs exactly
  one, with the message as prompt, when the request is JSON, its body is an object with a
  truthy \<open>message\<close> that holds no lone surrogate, and the API key is set. It performs none
  when the request is not JSON, when its body does not parse, when its body is an object
  whose \<open>message\<close> is missing or falsy, and when the API key is not set.
\<close>

theorem chat_outbound_calls:
  "(is_json request \<and> get_json request = Inr (JDict d) \<and> map_of d (lit ''message'') = Some m \<and>
      truthy m \<and> printable m \<and> key_truthy (GEMINI_API_KEY w) \<longrightarrow>
      posts (trace (snd (chat vendor request w))) = posts (trace w) @ [outbound w m]) \<and>
   (\<not> is_json request \<or> (\<exists>e. get_json request = Inl e) \<or>
    (\<exists>d. get_json request = Inr (JDict d) \<and>
       (map_of d (lit ''message'') = None \<or> (\<exists>v. map_of d (lit ''message'') = Some v \<and> \<not> truthy v))) \<or>
    \<not> key_truthy (GEMINI_API_KEY w) \<longrightarrow>
      posts (trace (snd (chat vendor request w))) = posts (trace w)) \<and>
   length (posts (trace (snd (chat vendor request w)))) \<le> length (posts (trace w)) + 1"
proof -
  have one: "posts (trace (snd (chat vendor request w))) = posts (trace w) @ [outbound w m]"
    if "is_json request \<and> get_json request = Inr (JDict d) \<and> map_of d (lit ''message'') = Some m \<and>
      truthy m \<and> printable m \<and> key_truthy (GEMINI_API_KEY w)"
    using that by (simp add: chat_posts)
  have none: "posts (trace (snd (chat vendor request w))) = posts (trace w)"
    if "\<not> is_json request \<or> (\<exists>e. get_json request = Inl e) \<or>
        (\<exists>d. get_json request = Inr (JDict d) \<and>
           (map_of d (lit ''message'') = None \<or> (\<exists>v. map_of d (lit ''message'') = Some v \<and> \<not> truthy v))) \<or>
        \<not> key_truthy (GEMINI_API_KEY w)"
    using that by (auto simp add: chat_posts split: sum.split)
  have most: "length (posts (trace (snd (chat vendor request w)))) \<le> length (posts (trace w)) + 1"
    by (simp add: chat_posts split: sum.split)
  from one none most show ?thesis
    by blast
qed

theorem chat_outbound_calls_witness:
  "posts (trace (snd (chat (vendor_fixed (PostReturns (reply 200 hello_result)))
       (ask (JStr (lit ''Hi''))) env0))) = [outbound env0 (JStr (lit ''Hi''))] \<and>
   posts (trace (snd (chat (vendor_fixed (PostReturns (reply 200 hello_result)))
       (ask (JStr (lit ''Hi''))) env_nokey))) = []"
  using chat_outbound_calls [of "ask (JStr (lit ''Hi''))" "[(lit ''message'', JStr (lit ''Hi''))]"
      "JStr (lit ''Hi'')" env0 "vendor_fixed (PostReturns (reply 200 hello_result))"]
    chat_outbound_calls [of "ask (JStr (lit ''Hi''))" "[(lit ''message'', JStr (lit ''Hi''))]"
      "JStr (lit ''Hi'')" env_nokey "vendor_fixed (PostReturns (reply 200 hello_result))"]
  by (simp add: ask_def env0_def env_nokey_def module_init_def lit_Nil_iff lit_no_surrogate)

subsection \<open>C7: no server-side state is changed\<close>

text \<open>
  C7. After a request to /chat the bindings \<open>GEMINI_API_KEY\<close>, \<open>GEMINI_API_URL\<close> and \<open>app\<close>
  are what they were before. The response is determined by the inbound request, the
  configuration (key and URL) and the vendor's reply to the outbound call: another world
  with the same key and URL (whatever its \<open>app\<close> and its earlier effects) and another
  vendor with the same replies give the same response.
\<close>

theorem chat_frame:
  "GEMINI_API_KEY (snd (chat vendor request w)) = GEMINI_API_KEY w \<and>
   GEMINI_API_URL (snd (chat vendor request w)) = GEMINI_API_URL w \<and>
   app (snd (chat vendor request w)) = app w \<and>
   (\<forall>vendor' w'.
      GEMINI_API_KEY w' = GEMINI_API_KEY w \<and> GEMINI_API_URL w' = GEMINI_API_URL w \<and>
      (\<forall>prompt. vendor' (outbound w prompt) = vendor (outbound w prompt)) \<longrightarrow>
      fst (chat vendor' request w') = fst (chat vendor request w))"
proof -
  have "fst (chat vendor' request w') = fst (chat vendor request w)"
    if "GEMINI_API_KEY w' = GEMINI_API_KEY w" "GEMINI_API_URL w' = GEMINI_API_URL w"
      "\<forall>prompt. vendor' (outbound w prompt) = vendor (outbound w prompt)"
    for vendor' and w' :: "'b world"
  proof -
    have "fst (get_gemini_response vendor' prompt w') = fst (get_gemini_response vendor prompt w)"
      for prompt
      using get_gemini_response_depends [of w' w vendor' prompt vendor] that by simp
    then show ?thesis
      by (simp add: chat_result cong: if_cong option.case_cong)
  qed
  then show ?thesis
    by (simp add: chat_bindings)
qed

theorem chat_frame_witness:
  "GEMINI_API_KEY (snd (chat (vendor_fixed (PostReturns (reply 200 hello_result)))
      (ask (JStr (lit ''Hi''))) env0)) = Some ''secret'' \<and>
   fst (chat (vendor_fixed (PostReturns (reply 200 hello_result))) (ask (JStr (lit ''Hi'')))
          (emit (Print ''earlier request'') env0)) =
   fst (chat (vendor_fixed (PostReturns (reply 200 hello_result))) (ask (JStr (lit ''Hi''))) env0)"
proof -
  let ?v = "vendor_fixed (PostReturns (reply 200 hello_result))"
  note f = chat_frame [of ?v "ask (JStr (lit ''Hi''))" env0]
  have "GEMINI_API_KEY (snd (chat ?v (ask (JStr (lit ''Hi''))) env0)) = GEMINI_API_KEY env0"
    by (rule f [THEN conjunct1])
  moreover have
    "GEMINI_API_KEY (emit (Print ''earlier request'') env0) = GEMINI_API_KEY env0 \<and>
     GEMINI_API_URL (emit (Print ''earlier request'') env0) = GEMINI_API_URL env0 \<and>
     (\<forall>prompt. ?v (outbound env0 prompt) = ?v (outbound env0 prompt)) \<longrightarrow>
     fst (chat ?v (ask (JStr (lit ''Hi''))) (emit (Print ''earlier request'') env0)) =
     fst (chat ?v (ask (JStr (lit ''Hi''))) env0)"
    by (rule f [THEN conjunct2, THEN conjunct2, THEN conjunct2, THEN spec, THEN spec])
  ultimately show ?thesis
    by (simp add: emit_simps env0_def module_init_def)
qed

subsection \<open>C8: the fallback for a reply of unexpected shape\<close>

text \<open>
  As stated, C8 fails: a reply whose first part has no \<open>text\<close> key lacks the nested path,
  the guard accepts it, the lookup raises \<open>KeyError\<close> and the generic handler answers with
  another string; likewise a reply whose \<open>candidates\<close> is \<open>null\<close> makes \<open>len\<close> raise
  \<open>TypeError\<close>.
\<close>

theorem fallback_counterexample:
  "fst (get_gemini_response (vendor_fixed (PostReturns (reply 200 no_text_result)))
          (JStr (lit ''Hi'')) env0) =
     JStr (lit (''An unexpected error occurred: '' @ quote @ ''text'' @ quote)) \<and>
   fst (get_gemini_response (vendor_fixed (PostReturns (reply 200 null_candidates_result)))
          (JStr (lit ''Hi'')) env0) =
     JStr (lit (''An unexpected error occurred: object of type '' @ quote @ ''NoneType'' @ quote @
                '' has no len()''))"
  by (simp add: get_gemini_response_result try_block_result handle_result env0_def module_init_def
        vendor_fixed_def reply_def raise_for_status_def bind_def no_text_result_def
        null_candidates_result_def structure_ok_def py_and_def candidates_def candidate0_def
        content_def parts_def part0_def part0_text_def quote_def)

text \<open>
  C8, amended. With the API key set, for every vendor reply that passes the status check and
  parses as JSON, \<open>get_gemini_response\<close> returns the fixed fallback string when the
  result is falsy (\<open>null\<close>, an empty object, ...), or is an object without a \<open>candidates\<close>
  key, or with an empty \<open>candidates\<close> list, or whose first candidate is an object without
  \<open>content\<close>, or whose \<open>content\<close> is an object without \<open>parts\<close> or with an empty \<open>parts\<close>
  list.
\<close>

theorem fallback_on_missing_structure:
  assumes "key_truthy (GEMINI_API_KEY w)"
    and "vendor (outbound w prompt) = PostReturns r"
    and "status_code r < 400 \<or> 600 \<le> status_code r"
    and "json r = Inr result"
    and "\<not> truthy result \<or>
         (\<exists>d. result = JDict d \<and>
            (map_of d (lit ''candidates'') = None \<or>
             map_of d (lit ''candidates'') = Some (JList []) \<or>
             (\<exists>c cs. map_of d (lit ''candidates'') = Some (JList (JDict c # cs)) \<and>
                (map_of c (lit ''content'') = None \<or>
                 (\<exists>ct. map_of c (lit ''content'') = Some (JDict ct) \<and>
                    (map_of ct (lit ''parts'') = None \<or>
                     map_of ct (lit ''parts'') = Some (JList [])))))))"
  shows "fst (get_gemini_response vendor prompt w) =
           JStr (lit ''Sorry, I couldn't get a valid response from the AI. Please try again.'')"
proof -
  have "structure_ok result = Inr False"
    using assms(5) by (auto simp add: structure_ok_lacking)
  moreover have "raise_for_status r = Inr ()"
    using assms(3) by (auto simp add: raise_for_status_def)
  ultimately have "fst (try_block vendor prompt w) = Inr (JStr (lit fallback))"
    by (simp add: try_block_result assms(2) assms(4) bind_def)
  then show ?thesis
    by (simp add: get_gemini_response_result assms(1) fallback_def)
qed

theorem fallback_on_missing_structure_witness:
  "fst (get_gemini_response
          (vendor_fixed (PostReturns (reply 200 (JDict [(lit ''candidates'', JList [])]))))
          (JStr (lit ''Hi'')) env0) =
     JStr (lit ''Sorry, I couldn't get a valid response from the AI. Please try again.'') \<and>
   fst (get_gemini_response
          (vendor_fixed (PostReturns (reply 200 (JDict [(lit ''error'', JStr (lit ''quota''))]))))
          (JStr (lit ''Hi'')) env0) =
     JStr (lit ''Sorry, I couldn't get a valid response from the AI. Please try again.'')"
  using fallback_on_missing_structure [of env0
      "vendor_fixed (PostReturns (reply 200 (JDict [(lit ''candidates'', JList [])])))"
      "JStr (lit ''Hi'')"
      "reply 200 (JDict [(lit ''candidates'', JList [])])" "JDict [(lit ''candidates'', JList [])]"]
    fallback_on_missing_structure [of env0
      "vendor_fixed (PostReturns (reply 200 (JDict [(lit ''error'', JStr (lit ''quota''))])))"
      "JStr (lit ''Hi'')"
      "reply 200 (JDict [(lit ''error'', JStr (lit ''quota''))])"
      "JDict [(lit ''error'', JStr (lit ''quota''))]"]
  by (simp add: env0_def module_init_def vendor_fixed_def reply_def lit_eq_iff)

subsection \<open>C9: a falsy message is a missing message\<close>

text \<open>
  C9. A JSON request whose \<open>message\<close> is present but falsy (the empty string, 0, false,
  null, an empty list or an empty object) is rejected with status 400 and
  \<open>{"error": "Missing 'message' in request body"}\<close>, exactly as the same request without
  the field is, and the world is returned as it was: no outbound call is made.
\<close>

theorem chat_rejects_falsy_message:
  assumes "is_json request"
    and "get_json request = Inr (JDict d)"
    and "map_of d (lit ''message'') = Some v"
    and "v \<in> set [JStr [], JInt 0, JBool False, JNull, JList [], JDict []]"
  shows "chat vendor request w =
           (Inr \<lparr>status = 400,
                 body = JDict [(lit ''error'', JStr (lit ''Missing 'message' in request body''))]\<rparr>, w) \<and>
         chat vendor request w =
           chat vendor
             (request\<lparr>get_json := Inr (JDict (filter (\<lambda>kv. fst kv \<noteq> lit ''message'') d))\<rparr>) w \<and>
         posts (trace (snd (chat vendor request w))) = posts (trace w)"
proof -
  have falsy: "\<not> truthy v"
    using assms(4) by auto
  then have "chat vendor request w =
           (Inr \<lparr>status = 400,
                 body = JDict [(lit ''error'', JStr (lit ''Missing 'message' in request body''))]\<rparr>, w)"
    by (simp add: chat_def assms(1) assms(2) assms(3))
  moreover have "map_of (filter (\<lambda>kv. fst kv \<noteq> lit ''message'') d) (lit ''message'') = None"
    by (auto simp add: map_of_eq_None_iff)
  then have "chat vendor request w =
           chat vendor
             (request\<lparr>get_json := Inr (JDict (filter (\<lambda>kv. fst kv \<noteq> lit ''message'') d))\<rparr>) w"
    using falsy by (simp add: chat_def assms(1) assms(2) assms(3))
  ultimately show ?thesis
    by simp
qed

theorem chat_rejects_falsy_message_witness:
  "chat (vendor_fixed (PostReturns (reply 200 hello_result))) (ask (JStr [])) env0 =
     (Inr \<lparr>status = 400,
           body = JDict [(lit ''error'', JStr (lit ''Missing 'message' in request body''))]\<rparr>, env0) \<and>
   posts (trace (snd (chat (vendor_fixed (PostReturns (reply 200 hello_result))) (ask (JInt 0)) env0))) = []"
  using chat_rejects_falsy_message [of "ask (JStr [])" "[(lit ''message'', JStr [])]" "JStr []"
      "vendor_fixed (PostReturns (reply 200 hello_result))" env0]
    chat_rejects_falsy_message [of "ask (JInt 0)" "[(lit ''message'', JInt 0)]" "JInt 0"
      "vendor_fixed (PostReturns (reply 200 hello_result))" env0]
  by (simp add: ask_def env0_def module_init_def)

subsection \<open>C10: relay failures are answered with status 200\<close>

text \<open>
  C10 says that every JSON request with a truthy \<open>message\<close> is answered with status 200,
  relay failures included. The view does answer so whenever it reaches its last line (see
  \<open>chat_accepted\<close> and the theorem of C4), but its first \<open>print\<close> stands outside any
  \<open>try\<close>: on a body whose \<open>message\<close> is the letter H followed by the lone
  surrogate U+D83D the view raises \<open>UnicodeEncodeError\<close>, no outbound call is made, and Flask
  answers with status 500.
\<close>

theorem chat_unprintable_message:
  "chat (vendor_fixed (PostReturns (reply 200 hello_result))) (ask (JStr [0x48, 0xD83D])) env0 =
     (Inl (Exc UnicodeEncodeError
            (quote @ ''utf-8'' @ quote @ '' codec can't encode character '' @ quote @ [CHR 0x5C] @
             ''ud83d'' @ quote @ '' in position 33: surrogates not allowed'')), env0)"
proof -
  have "length ''Received message from frontend: '' = 32"
    by simp
  then have "print_error ''Received message from frontend: '' (JStr [0x48, 0xD83D]) =
             encode_error 32 [0x48, 0xD83D]"
    by (simp only: print_error.simps)
  moreover have "dec 33 = ''33''"
    by (simp add: dec.simps digit_def)
  ultimately have "print_error ''Received message from frontend: '' (JStr [0x48, 0xD83D]) =
     Some (Exc UnicodeEncodeError
            (quote @ ''utf-8'' @ quote @ '' codec can't encode character '' @ quote @ [CHR 0x5C] @
             ''ud83d'' @ quote @ '' in position 33: surrogates not allowed''))"
    by (simp add: encode_error_def is_surrogate_def hex4_def digit_def)
  then show ?thesis
    by (simp add: chat_def ask_def print_value_def del: print_error.simps)
qed

end
